theory Spec2Isabelle
  imports Complex_Main "HOL-Library.Char_ord" "HOL-Library.List_Lexorder" "HOL-Library.Log_Nat"
begin

section \<open>Data model shared by the Fetcher and the Dashboard\<close>

text \<open>
  Python exceptions are values. \<open>Exception\<close> carries the message built by the source's
  f-string; the other constructors are the exceptions raised by the libraries the
  source calls, with the offending key or a short reason.
\<close>

datatype error =
    Exception string
  | JSONDecodeError
  | KeyError string
  | IndexError
  | ValueError string
  | FileNotFoundError
  | OtherError string

text \<open>
  A pandas DataFrame after \<open>reset_index\<close> (and after \<open>read_csv\<close>): a \<open>date\<close> column
  and the named value columns. A row is its date together with its cells, read by
  column name; only the names listed in \<open>df_columns\<close> are columns of the frame. The cell
  type is a parameter: in the Fetcher a cell is \<open>'v option\<close> with \<open>None\<close> for NaN, in
  the Dashboard it is whatever numeric type the loaded column has.
\<close>

record ('d, 'c) dataframe =
  df_columns :: "string list"
  df_rows :: "('d \<times> (string \<Rightarrow> 'c)) list"

text \<open>\<open>len(df)\<close>\<close>

definition len :: "('d, 'c) dataframe \<Rightarrow> nat" where
  "len df = length (df_rows df)"

text \<open>\<open>df[column_name]\<close> for a value column: the Series of its cells, or KeyError.\<close>

definition getitem :: "('d, 'c) dataframe \<Rightarrow> string \<Rightarrow> error + 'c list" where
  "getitem df c =
     (if c \<in> set (df_columns df) then Inr (map (\<lambda>r. snd r c) (df_rows df))
      else Inl (KeyError c))"

text \<open>\<open>df["date"]\<close>\<close>

definition date_column :: "('d, 'c) dataframe \<Rightarrow> 'd list" where
  "date_column df = map fst (df_rows df)"

text \<open>\<open>series.iloc[i]\<close>: a negative position counts from the end; out of range raises.\<close>

definition iloc :: "'a list \<Rightarrow> int \<Rightarrow> error + 'a" where
  "iloc series pos =
     (if 0 \<le> pos \<and> pos < int (length series) then Inr (series ! nat pos)
      else if pos < 0 \<and> - pos \<le> int (length series)
        then Inr (series ! nat (int (length series) + pos))
      else Inl IndexError)"

text \<open>\<open>df.tail(n)\<close>: the last \<open>n\<close> rows, all of them when there are fewer.\<close>

definition tail :: "nat \<Rightarrow> ('d, 'c) dataframe \<Rightarrow> ('d, 'c) dataframe" where
  "tail n df = df\<lparr>df_rows := drop (length (df_rows df) - n) (df_rows df)\<rparr>"

text \<open>Sequencing of two steps, the first of which may raise.\<close>

definition bind_err :: "error + 'a \<Rightarrow> ('a \<Rightarrow> error + 'b) \<Rightarrow> error + 'b" where
  "bind_err m f = (case m of Inl e \<Rightarrow> Inl e | Inr x \<Rightarrow> f x)"

section \<open>Dashboard (app.py)\<close>

text \<open>
  \<open>calculate_change(df, column_name)\<close>. The length test comes first, so a short table
  gives 0 before the column is looked up.
\<close>

definition calculate_change :: "('d, 'v::{zero,minus}) dataframe \<Rightarrow> string \<Rightarrow> error + 'v" where
  "calculate_change df column_name =
     (if len df < 2 then Inr 0
      else bind_err (getitem df column_name) (\<lambda>col.
           bind_err (iloc col (- 1)) (\<lambda>latest.
           bind_err (iloc col (- 2)) (\<lambda>previous.
           Inr (latest - previous)))))"

text \<open>The time-range filter of \<open>main\<close> (the \<open>if\<close>/\<open>elif\<close>/\<open>else\<close> on \<open>time_range\<close>).\<close>

definition filter_time_range :: "string \<Rightarrow> ('d, 'c) dataframe \<Rightarrow> ('d, 'c) dataframe" where
  "filter_time_range time_range df =
     (if time_range = ''Last 12 Months'' then tail 12 df
      else if time_range = ''Last 6 Months'' then tail 6 df
      else df)"

text \<open>
  The standard-library and widget functions the Dashboard calls are parameters of the
  model: \<open>read_csv\<close> is \<open>pd.read_csv\<close> followed by the \<open>pd.to_datetime\<close> of the date
  column (lines 16-17 of app.py) on the contents of an existing file, \<open>strftime\<close> is
  \<open>Timestamp.strftime('%B %Y')\<close>, \<open>format_f spec v\<close> is Python's \<open>format(v, spec)\<close> for
  a fixed-point format specification and \<open>str_v\<close> is \<open>str(v)\<close>.
  A specification \<open>Fixed plus comma p\<close> stands for \<open>[+][,].pf\<close>: \<open>Fixed False False 1\<close> is
  \<open>.1f\<close>, \<open>Fixed False True 0\<close> is \<open>,.0f\<close>, \<open>Fixed True False 2\<close> is \<open>+.2f\<close>.
\<close>

datatype fspec = Fixed bool bool nat

record ('d, 'v, 'f) pylib =
  read_csv :: "'f \<Rightarrow> error + ('d, 'v) dataframe"
  strftime :: "'d \<Rightarrow> string"
  format_f :: "fspec \<Rightarrow> 'v \<Rightarrow> string"
  str_v :: "'v \<Rightarrow> string"

text \<open>\<open>format_value(value, metric_type)\<close>\<close>

definition format_value :: "('d, 'v, 'f) pylib \<Rightarrow> 'v \<Rightarrow> string \<Rightarrow> string" where
  "format_value L v metric_type =
     (if metric_type = ''rate'' then format_f L (Fixed False False 1) v @ ''%''
      else if metric_type = ''employees'' then format_f L (Fixed False True 0) v @ ''K''
      else if metric_type = ''earnings'' then ''$'' @ format_f L (Fixed False False 2) v
      else if metric_type = ''hours'' then format_f L (Fixed False False 1) v
      else str_v L v)"

text \<open>
  \<open>load_data()\<close>: the file system is a map from file names to contents; a missing file
  makes \<open>pd.read_csv\<close> raise FileNotFoundError. The \<open>st.cache_data\<close> memoisation is not
  modelled: a render pass that loads is what is described.
\<close>

definition load_data :: "('d, 'v, 'f) pylib \<Rightarrow> (string \<rightharpoonup> 'f) \<Rightarrow> error + ('d, 'v) dataframe" where
  "load_data L fs =
     (case fs ''labor_data.csv'' of
        None \<Rightarrow> Inl FileNotFoundError
      | Some f \<Rightarrow> read_csv L f)"

text \<open>What one render pass puts on the page.\<close>

record card =
  label :: string
  shown_value :: string
  delta :: string
  delta_color :: string

record ('d, 'v) trace =
  tr_x :: "'d list"
  tr_y :: "'v list"
  tr_name :: string
  tr_color :: string
  tr_width :: nat
  tr_mode :: string

datatype ('d, 'v) chart_area = Chart "('d, 'v) trace list" | Warning string

record ('d, 'v) view =
  info :: string
  cards :: "card list"
  chart :: "('d, 'v) chart_area"
  raw_data :: "('d, 'v) dataframe"

text \<open>
  A pass either stops after \<open>st.error\<close> (the title and the introduction, which are
  static, are already on the page) or renders the whole view.
\<close>

datatype ('d, 'v) page = Stopped string | Rendered "('d, 'v) view"

text \<open>\<open>d[key]\<close> on a dict literal.\<close>

definition dict_get :: "(string \<times> 'a) list \<Rightarrow> string \<Rightarrow> error + 'a" where
  "dict_get d k = (case map_of d k of None \<Rightarrow> Inl (KeyError k) | Some v \<Rightarrow> Inr v)"

definition options :: "string list" where
  "options = [''Unemployment_Rate'', ''Total_Nonfarm_Employees'',
              ''Avg_Hourly_Earnings'', ''Avg_Weekly_Hours'']"

definition colors :: "(string \<times> string) list" where
  "colors = [(''Unemployment_Rate'', ''#FF6B6B''),
             (''Total_Nonfarm_Employees'', ''#4ECDC4''),
             (''Avg_Hourly_Earnings'', ''#45B7D1''),
             (''Avg_Weekly_Hours'', ''#FFA07A'')]"

definition display_names :: "(string \<times> string) list" where
  "display_names = [(''Unemployment_Rate'', ''Unemployment Rate (%)''),
                    (''Total_Nonfarm_Employees'', ''Total Nonfarm Employees (thousands)''),
                    (''Avg_Hourly_Earnings'', ''Avg Hourly Earnings ($)''),
                    (''Avg_Weekly_Hours'', ''Avg Weekly Hours'')]"

text \<open>
  The data-range line: \<open>df['date'].min()\<close> of an empty column is NaT, whose
  \<open>strftime\<close> raises.
\<close>

definition series_min :: "'d::linorder list \<Rightarrow> 'd" where
  "series_min xs = fold min (tl xs) (hd xs)"

definition series_max :: "'d::linorder list \<Rightarrow> 'd" where
  "series_max xs = fold max (tl xs) (hd xs)"

definition data_range :: "('d::linorder, 'v, 'f) pylib \<Rightarrow> ('d, 'v) dataframe \<Rightarrow> error + string" where
  "data_range L df =
     (if df_rows df = [] then Inl (ValueError ''NaTType does not support strftime'')
      else Inr (''Data Range: '' @ strftime L (series_min (date_column df)) @ '' to ''
                @ strftime L (series_max (date_column df))))"

text \<open>
  One summary card (the body of a \<open>with col:\<close> block): the latest value, then the change,
  both of the table as loaded.
\<close>

definition summary_card ::
  "('d, 'v::{zero,minus}, 'f) pylib \<Rightarrow> ('d, 'v) dataframe \<Rightarrow> string \<Rightarrow> string \<Rightarrow> string \<Rightarrow>
   ('v \<Rightarrow> string) \<Rightarrow> string \<Rightarrow> error + card" where
  "summary_card L df column_name lbl metric_type delta_text color =
     bind_err (getitem df column_name) (\<lambda>col.
     bind_err (iloc col (- 1)) (\<lambda>latest.
     bind_err (calculate_change df column_name) (\<lambda>change.
     Inr \<lparr>label = lbl, shown_value = format_value L latest metric_type,
          delta = delta_text change, delta_color = color\<rparr>)))"

definition summary_cards ::
  "('d, 'v::{zero,minus}, 'f) pylib \<Rightarrow> ('d, 'v) dataframe \<Rightarrow> error + card list" where
  "summary_cards L df =
     bind_err (summary_card L df ''Unemployment_Rate'' ''Unemployment Rate'' ''rate''
                 (\<lambda>c. format_f L (Fixed True False 1) c @ ''%'') ''inverse'') (\<lambda>c1.
     bind_err (summary_card L df ''Total_Nonfarm_Employees'' ''Total Nonfarm Employees'' ''employees''
                 (\<lambda>c. format_f L (Fixed True True 0) c @ ''K'') ''normal'') (\<lambda>c2.
     bind_err (summary_card L df ''Avg_Hourly_Earnings'' ''Avg Hourly Earnings'' ''earnings''
                 (\<lambda>c. ''$'' @ format_f L (Fixed True False 2) c) ''normal'') (\<lambda>c3.
     bind_err (summary_card L df ''Avg_Weekly_Hours'' ''Avg Weekly Hours'' ''hours''
                 (\<lambda>c. format_f L (Fixed True False 1) c) ''normal'') (\<lambda>c4.
     Inr [c1, c2, c3, c4]))))"

text \<open>
  \<open>fig.add_trace(go.Scatter(...))\<close> for one selected series; the arguments are evaluated
  in the order written.
\<close>

definition scatter :: "('d, 'v) dataframe \<Rightarrow> string \<Rightarrow> error + ('d, 'v) trace" where
  "scatter df_filtered series =
     bind_err (getitem df_filtered series) (\<lambda>y.
     bind_err (dict_get display_names series) (\<lambda>n.
     bind_err (dict_get colors series) (\<lambda>c.
     Inr \<lparr>tr_x = date_column df_filtered, tr_y = y, tr_name = n, tr_color = c,
          tr_width = 2, tr_mode = ''lines+markers''\<rparr>)))"

fun add_traces :: "('d, 'v) dataframe \<Rightarrow> string list \<Rightarrow> error + ('d, 'v) trace list" where
  "add_traces df_filtered [] = Inr []"
| "add_traces df_filtered (series # rest) =
     bind_err (scatter df_filtered series) (\<lambda>t.
     bind_err (add_traces df_filtered rest) (\<lambda>ts. Inr (t # ts)))"

text \<open>The \<open>if selected_series:\<close> block.\<close>

definition render_chart :: "('d, 'v) dataframe \<Rightarrow> string list \<Rightarrow> error + ('d, 'v) chart_area" where
  "render_chart df_filtered selected_series =
     (if selected_series \<noteq> [] then
        bind_err (add_traces df_filtered selected_series) (\<lambda>ts. Inr (Chart ts))
      else Inr (Warning ''Please select at least one series to display.''))"

text \<open>The trace of a series as \<open>scatter\<close> builds it, given its display name and colour.\<close>

definition trace_of :: "('d, 'v) dataframe \<Rightarrow> string \<Rightarrow> string \<Rightarrow> string \<Rightarrow> ('d, 'v) trace" where
  "trace_of df series n c =
     \<lparr>tr_x = date_column df, tr_y = map (\<lambda>r. snd r series) (df_rows df),
      tr_name = n, tr_color = c, tr_width = 2, tr_mode = ''lines+markers''\<rparr>"

text \<open>\<open>df_filtered.sort_values("date", ascending=False)\<close>\<close>

definition sort_date_desc :: "('d::linorder, 'v) dataframe \<Rightarrow> ('d, 'v) dataframe" where
  "sort_date_desc df = df\<lparr>df_rows := rev (sort_key fst (df_rows df))\<rparr>"

text \<open>
  The text of \<open>st.error\<close>. Here and in the other strings of the page, the pictograph
  that opens the source's string is left out.
\<close>

definition missing_file_message :: string where
  "missing_file_message =
     ''Data file 'labor_data.csv' not found. Please run 'get_data.py' first to fetch the data.''"

text \<open>
  \<open>main()\<close> as one render pass over the file system, the chosen time range and the
  chosen series. Only FileNotFoundError is caught.
\<close>

definition main ::
  "('d::linorder, 'v::{zero,minus}, 'f) pylib \<Rightarrow> (string \<rightharpoonup> 'f) \<Rightarrow> string \<Rightarrow> string list \<Rightarrow>
   error + ('d, 'v) page" where
  "main L fs time_range selected_series =
     (case load_data L fs of
        Inl FileNotFoundError \<Rightarrow> Inr (Stopped missing_file_message)
      | Inl e \<Rightarrow> Inl e
      | Inr df \<Rightarrow>
          bind_err (data_range L df) (\<lambda>i.
          bind_err (summary_cards L df) (\<lambda>cs.
          bind_err (render_chart (filter_time_range time_range df) selected_series) (\<lambda>ch.
          Inr (Rendered \<lparr>info = i, cards = cs, chart = ch,
                         raw_data = sort_date_desc (filter_time_range time_range df)\<rparr>)))))"

section \<open>Python's fixed-point formatting of a float\<close>

text \<open>
  Python's \<open>format(v, "[+][,].pf")\<close> of a finite float prints the decimal expansion of
  the float's exact binary value, correctly rounded to \<open>p\<close> places with ties going to
  the even digit. A finite float is represented here by the rational number it
  denotes (so a negative zero, NaN and the infinities are outside this model).
\<close>

definition digit_char :: "int \<Rightarrow> char" where
  "digit_char d = ''0123456789'' ! nat d"

function str_digits :: "int \<Rightarrow> string" where
  "str_digits n =
     (if n < 10 then [digit_char n] else str_digits (n div 10) @ [digit_char (n mod 10)])"
  by pat_completeness auto
termination
  by (relation "measure nat") auto

declare str_digits.simps [simp del]

text \<open>The \<open>,\<close> option: a comma before every group of three digits, counted from the right.\<close>

fun group3 :: "string \<Rightarrow> string" where
  "group3 ds =
     (if length ds \<le> 3 then ds
      else group3 (take (length ds - 3) ds) @ '','' @ drop (length ds - 3) ds)"

declare group3.simps [simp del]

definition zfill :: "nat \<Rightarrow> string \<Rightarrow> string" where
  "zfill p s = replicate (p - length s) CHR ''0'' @ s"

definition round_half_even :: "rat \<Rightarrow> int" where
  "round_half_even x =
     (let f = \<lfloor>x\<rfloor>; d = x - of_int f
      in if d < 1 / 2 then f else if 1 / 2 < d then f + 1 else if even f then f else f + 1)"

definition format_fixed :: "fspec \<Rightarrow> rat \<Rightarrow> string" where
  "format_fixed spec x =
     (case spec of Fixed show_plus comma p \<Rightarrow>
        let n = round_half_even (\<bar>x\<bar> * 10 ^ p);
            whole = str_digits (n div 10 ^ p);
            frac = zfill p (str_digits (n mod 10 ^ p))
        in (if x < 0 then ''-'' else if show_plus then ''+'' else [])
           @ (if comma then group3 whole else whole)
           @ (if p = 0 then [] else ''.'' @ frac))"

text \<open>
  The float a decimal literal denotes: the nearest binary64 number, ties to the even
  mantissa (53 significant bits, least exponent \<open>-1074\<close>; overflow is not modelled).
\<close>

definition pow2 :: "int \<Rightarrow> rat" where
  "pow2 e = (if 0 \<le> e then 2 ^ nat e else 1 / 2 ^ nat (- e))"

definition floor_log2 :: "rat \<Rightarrow> int" where
  "floor_log2 a =
     (let (n, d) = quotient_of a; k = bitlen n - bitlen d
      in if pow2 k \<le> a then k else k - 1)"

definition py_float :: "rat \<Rightarrow> rat" where
  "py_float q =
     (if q = 0 then 0
      else let e = max (floor_log2 \<bar>q\<bar> - 52) (- 1074);
               m = round_half_even (\<bar>q\<bar> / pow2 e)
           in sgn q * of_int m * pow2 e)"

section \<open>Fetcher (get_data.py)\<close>

text \<open>
  The API response at the type the API documents: a status code and, when the body is
  JSON, a payload with a \<open>status\<close>, a \<open>message\<close> (as \<open>str\<close> renders it) and the series of
  \<open>Results\<close>, each a \<open>seriesID\<close> with its observations \<open>{year, period, value}\<close>, all
  strings. The request itself (series identifiers and year range) is fixed by the
  script and only shapes what the API answers.
\<close>

record item =
  item_year :: string
  item_period :: string
  item_value :: string

record series =
  seriesID :: string
  series_data :: "item list"

record payload =
  p_status :: "string option"
  p_message :: "string option"
  p_series :: "series list"

record response =
  status_code :: int
  json_body :: "payload option"

definition str_int :: "int \<Rightarrow> string" where
  "str_int n = (if n < 0 then ''-'' @ str_digits (- n) else str_digits n)"

text \<open>\<open>fetch_bls_data\<close>, from the response of \<open>requests.post\<close> on.\<close>

definition fetch_bls_data :: "response \<Rightarrow> error + payload" where
  "fetch_bls_data r =
     (if status_code r \<noteq> 200 then
        Inl (Exception (''API request failed with status code '' @ str_int (status_code r)))
      else case json_body r of
        None \<Rightarrow> Inl JSONDecodeError
      | Some data \<Rightarrow>
          if p_status data \<noteq> Some ''REQUEST_SUCCEEDED'' then
            Inl (Exception (''API request failed: '' @
                   (case p_message data of None \<Rightarrow> ''Unknown error'' | Some m \<Rightarrow> m)))
          else Inr data)"

definition series_names :: "(string \<times> string) list" where
  "series_names = [(''LNS14000000'', ''Unemployment_Rate''),
                   (''CES0000000001'', ''Total_Nonfarm_Employees''),
                   (''CES0500000003'', ''Avg_Hourly_Earnings''),
                   (''CES0500000007'', ''Avg_Weekly_Hours'')]"

text \<open>\<open>series_names.get(series_id, series_id)\<close>\<close>

definition series_name :: "string \<Rightarrow> string" where
  "series_name series_id =
     (case map_of series_names series_id of None \<Rightarrow> series_id | Some n \<Rightarrow> n)"

text \<open>An element of \<open>all_data\<close>.\<close>

record entry =
  e_date :: string
  e_series_name :: string
  e_value :: string

text \<open>The inner loop over \<open>series["data"]\<close> and the outer loop over the series.\<close>

fun process_items :: "string \<Rightarrow> item list \<Rightarrow> entry list" where
  "process_items name [] = []"
| "process_items name (it # rest) =
     (if take 1 (item_period it) = ''M'' then
        \<lparr>e_date = item_year it @ ''-'' @ drop 1 (item_period it) @ ''-01'',
         e_series_name = name, e_value = item_value it\<rparr> # process_items name rest
      else process_items name rest)"

fun process_series :: "series list \<Rightarrow> entry list" where
  "process_series [] = []"
| "process_series (s # rest) =
     process_items (series_name (seriesID s)) (series_data s) @ process_series rest"

definition all_data :: "payload \<Rightarrow> entry list" where
  "all_data api_response = process_series (p_series api_response)"

text \<open>
  The pandas functions are parameters: \<open>to_datetime\<close> parses one date string (\<open>None\<close>
  when pandas raises), \<open>to_numeric\<close> is the coercion of one value with
  \<open>errors="coerce"\<close> (\<open>None\<close> is NaN), \<open>to_csv\<close> serialises a frame.
\<close>

record ('d, 'v, 'f) pandas =
  to_datetime :: "string \<Rightarrow> 'd option"
  to_numeric :: "string \<Rightarrow> 'v option"
  to_csv :: "('d, 'v option) dataframe \<Rightarrow> 'f"

text \<open>
  Lines 64-66: the long frame with its \<open>date\<close> and \<open>value\<close> columns converted. A frame
  built from an empty list has no columns, so \<open>df["date"]\<close> raises.
\<close>

fun convert_rows ::
  "('d, 'v, 'f) pandas \<Rightarrow> entry list \<Rightarrow> error + ('d \<times> string \<times> 'v option) list" where
  "convert_rows P [] = Inr []"
| "convert_rows P (e # rest) =
     (case to_datetime P (e_date e) of
        None \<Rightarrow> Inl (ValueError (''Unknown datetime string format: '' @ e_date e))
      | Some d \<Rightarrow>
          bind_err (convert_rows P rest) (\<lambda>rows.
          Inr ((d, e_series_name e, to_numeric P (e_value e)) # rows)))"

definition long_frame ::
  "('d, 'v, 'f) pandas \<Rightarrow> entry list \<Rightarrow> error + ('d \<times> string \<times> 'v option) list" where
  "long_frame P entries =
     (if entries = [] then Inl (KeyError ''date'') else convert_rows P entries)"

text \<open>
  \<open>df.pivot(index="date", columns="series_name", values="value")\<close>: refused when a
  (date, series_name) pair occurs twice; otherwise one row per date and one column
  per name, both in ascending order, a pair with no observation being NaN.
\<close>

definition pivot_key :: "'d \<times> string \<times> 'c \<Rightarrow> 'd \<times> string" where
  "pivot_key r = (fst r, fst (snd r))"

definition pivot_cell :: "('d \<times> string \<times> 'v option) list \<Rightarrow> 'd \<Rightarrow> string \<Rightarrow> 'v option" where
  "pivot_cell long d n =
     (case map_of (map (\<lambda>r. (pivot_key r, snd (snd r))) long) (d, n) of
        None \<Rightarrow> None
      | Some v \<Rightarrow> v)"

definition pivot_frame ::
  "('d::linorder \<times> string \<times> 'v option) list \<Rightarrow> ('d, 'v option) dataframe" where
  "pivot_frame long =
     \<lparr>df_columns = sort (remdups (map (\<lambda>r. fst (snd r)) long)),
      df_rows = map (\<lambda>d. (d, pivot_cell long d)) (sort (remdups (map fst long)))\<rparr>"

definition pivot ::
  "('d::linorder \<times> string \<times> 'v option) list \<Rightarrow> error + ('d, 'v option) dataframe" where
  "pivot long =
     (if \<not> distinct (map pivot_key long) then
        Inl (ValueError ''Index contains duplicate entries, cannot reshape'')
      else Inr (pivot_frame long))"

text \<open>\<open>reset_index()\<close>: the index becomes the \<open>date\<close> column, unless a column has that name.\<close>

definition reset_index :: "('d, 'c) dataframe \<Rightarrow> error + ('d, 'c) dataframe" where
  "reset_index df =
     (if ''date'' \<in> set (df_columns df) then Inl (ValueError ''cannot insert date, already exists'')
      else Inr df)"

text \<open>\<open>sort_values("date")\<close> and \<open>dropna()\<close>\<close>

definition sort_values_date :: "('d::linorder, 'c) dataframe \<Rightarrow> ('d, 'c) dataframe" where
  "sort_values_date df = df\<lparr>df_rows := sort_key fst (df_rows df)\<rparr>"

definition complete_row :: "string list \<Rightarrow> 'd \<times> (string \<Rightarrow> 'v option) \<Rightarrow> bool" where
  "complete_row cols r = list_all (\<lambda>c. snd r c \<noteq> None) cols"

definition dropna :: "('d, 'v option) dataframe \<Rightarrow> ('d, 'v option) dataframe" where
  "dropna df = df\<lparr>df_rows := filter (complete_row (df_columns df)) (df_rows df)\<rparr>"

definition clean_and_process_data ::
  "('d::linorder, 'v, 'f) pandas \<Rightarrow> payload \<Rightarrow> error + ('d, 'v option) dataframe" where
  "clean_and_process_data P api_response =
     bind_err (long_frame P (all_data api_response)) (\<lambda>df.
     bind_err (pivot df) (\<lambda>df_pivot.
     bind_err (reset_index df_pivot) (\<lambda>df_pivot.
     Inr (dropna (sort_values_date df_pivot)))))"

text \<open>
  The script's main execution, from the response on: the only write is the last step,
  so a run that raises returns the file system it was given.
\<close>

definition run ::
  "('d::linorder, 'v, 'f) pandas \<Rightarrow> response \<Rightarrow> (string \<rightharpoonup> 'f) \<Rightarrow> (error + unit) \<times> (string \<rightharpoonup> 'f)" where
  "run P r fs =
     (case fetch_bls_data r of
        Inl e \<Rightarrow> (Inl e, fs)
      | Inr api_response \<Rightarrow>
          (case clean_and_process_data P api_response of
             Inl e \<Rightarrow> (Inl e, fs)
           | Inr df_clean \<Rightarrow> (Inr (), fs(''labor_data.csv'' \<mapsto> to_csv P df_clean))))"

text \<open>Unpivoting a wide frame: one observation per row and column with a value.\<close>

definition unpivot :: "('d, 'v option) dataframe \<Rightarrow> ('d \<times> string \<times> 'v) list" where
  "unpivot df =
     concat (map (\<lambda>r. concat (map (\<lambda>c. case snd r c of None \<Rightarrow> [] | Some v \<Rightarrow> [(fst r, c, v)])
                                 (df_columns df)))
                 (df_rows df))"

text \<open>The periods of the twelve months.\<close>

definition monthly_periods :: "string list" where
  "monthly_periods = [''M01'', ''M02'', ''M03'', ''M04'', ''M05'', ''M06'',
                      ''M07'', ''M08'', ''M09'', ''M10'', ''M11'', ''M12'']"

section \<open>A three-month fixture\<close>

text \<open>
  The table of the end-to-end scenario: January to March 2024 (dates written
  \<open>yyyymm\<close>), unemployment rates 3.7, 3.8 and 3.9. A file holds the table it encodes.
\<close>

definition fixture_lib :: "(int, rat, (int, rat) dataframe) pylib" where
  "fixture_lib = \<lparr>read_csv = Inr, strftime = str_digits, format_f = format_fixed,
                   str_v = format_fixed (Fixed False False 1)\<rparr>"

definition fixture_row :: "rat \<Rightarrow> rat \<Rightarrow> rat \<Rightarrow> rat \<Rightarrow> string \<Rightarrow> rat" where
  "fixture_row u e h w c =
     (if c = ''Unemployment_Rate'' then py_float u
      else if c = ''Total_Nonfarm_Employees'' then py_float e
      else if c = ''Avg_Hourly_Earnings'' then py_float h
      else py_float w)"

definition fixture_table :: "(int, rat) dataframe" where
  "fixture_table =
     \<lparr>df_columns = [''Avg_Hourly_Earnings'', ''Avg_Weekly_Hours'',
                     ''Total_Nonfarm_Employees'', ''Unemployment_Rate''],
      df_rows = [(202401, fixture_row (37 / 10) 157000 (345 / 10) (343 / 10)),
                 (202402, fixture_row (38 / 10) 157200 (346 / 10) (343 / 10)),
                 (202403, fixture_row (39 / 10) 157500 (3475 / 100) (344 / 10))]\<rparr>"

definition fixture_fs :: "string \<rightharpoonup> (int, rat) dataframe" where
  "fixture_fs = [''labor_data.csv'' \<mapsto> fixture_table]"

text \<open>The four summary cards the fixture is expected to show.\<close>

definition fixture_cards :: "card list" where
  "fixture_cards =
     [\<lparr>label = ''Unemployment Rate'', shown_value = ''3.9%'',
        delta = ''+0.1%'', delta_color = ''inverse''\<rparr>,
      \<lparr>label = ''Total Nonfarm Employees'', shown_value = ''157,500K'',
        delta = ''+300K'', delta_color = ''normal''\<rparr>,
      \<lparr>label = ''Avg Hourly Earnings'', shown_value = ''$34.75'',
        delta = ''$+0.15'', delta_color = ''normal''\<rparr>,
      \<lparr>label = ''Avg Weekly Hours'', shown_value = ''34.4'',
        delta = ''+0.1'', delta_color = ''normal''\<rparr>]"

text \<open>
  A Fetcher fixture: dates and values are kept as the strings they are (ISO dates
  order as strings), the value \<open>-\<close> is not a number, and a file holds the frame written.
  The response has three months of the unemployment rate, one quarterly observation,
  and two months of employment.
\<close>

definition fixture_pandas :: "(string, string, (string, string option) dataframe) pandas" where
  "fixture_pandas =
     \<lparr>to_datetime = Some, to_numeric = (\<lambda>s. if s = ''-'' then None else Some s),
      to_csv = (\<lambda>df. df)\<rparr>"

definition obs :: "string \<Rightarrow> string \<Rightarrow> string \<Rightarrow> item" where
  "obs y p v = \<lparr>item_year = y, item_period = p, item_value = v\<rparr>"

definition fixture_payload :: payload where
  "fixture_payload =
     \<lparr>p_status = Some ''REQUEST_SUCCEEDED'', p_message = None,
      p_series =
        [\<lparr>seriesID = ''LNS14000000'',
          series_data = [obs ''2024'' ''M03'' ''3.9'', obs ''2024'' ''M02'' ''3.8'',
                         obs ''2024'' ''Q01'' ''3.8'', obs ''2024'' ''M01'' ''3.7'']\<rparr>,
         \<lparr>seriesID = ''CES0000000001'',
          series_data = [obs ''2024'' ''M02'' ''157200'', obs ''2024'' ''M01'' ''157000'']\<rparr>]\<rparr>"

definition fixture_ok :: response where
  "fixture_ok = \<lparr>status_code = 200, json_body = Some fixture_payload\<rparr>"

definition fixture_unavailable :: response where
  "fixture_unavailable = \<lparr>status_code = 503, json_body = None\<rparr>"

definition fixture_refused :: response where
  "fixture_refused =
     \<lparr>status_code = 200,
      json_body = Some \<lparr>p_status = Some ''REQUEST_NOT_PROCESSED'',
                        p_message = Some ''daily threshold reached'', p_series = []\<rparr>\<rparr>"

text \<open>The same month of the same series reported twice.\<close>

definition fixture_duplicate :: payload where
  "fixture_duplicate =
     \<lparr>p_status = Some ''REQUEST_SUCCEEDED'', p_message = None,
      p_series =
        [\<lparr>seriesID = ''LNS14000000'',
          series_data = [obs ''2024'' ''M01'' ''3.7'', obs ''2024'' ''M01'' ''3.8'']\<rparr>]\<rparr>"

text \<open>The file system after a successful run that started with no file.\<close>

definition fixture_written :: "string \<rightharpoonup> (string, string option) dataframe" where
  "fixture_written = snd (run fixture_pandas fixture_ok Map.empty)"

text \<open>
  A table with its four columns and no row, as read from a file that holds only the
  header line, and a response in which no month has a value for every series: the
  Fetcher writes such a file for it.
\<close>

definition header_only_table :: "(int, rat) dataframe" where
  "header_only_table =
     \<lparr>df_columns = [''Avg_Hourly_Earnings'', ''Avg_Weekly_Hours'',
                     ''Total_Nonfarm_Employees'', ''Unemployment_Rate''],
      df_rows = []\<rparr>"

definition header_only_fs :: "string \<rightharpoonup> (int, rat) dataframe" where
  "header_only_fs = [''labor_data.csv'' \<mapsto> header_only_table]"

definition fixture_staggered :: payload where
  "fixture_staggered =
     \<lparr>p_status = Some ''REQUEST_SUCCEEDED'', p_message = None,
      p_series =
        [\<lparr>seriesID = ''LNS14000000'', series_data = [obs ''2025'' ''M01'' ''4.0'']\<rparr>,
         \<lparr>seriesID = ''CES0000000001'', series_data = [obs ''2025'' ''M01'' ''159000'']\<rparr>,
         \<lparr>seriesID = ''CES0500000003'', series_data = [obs ''2025'' ''M01'' ''35.9'']\<rparr>,
         \<lparr>seriesID = ''CES0500000007'', series_data = [obs ''2024'' ''M12'' ''34.2'']\<rparr>]\<rparr>"

section \<open>Properties of the Dashboard\<close>

lemma iloc_last: "xs \<noteq> [] \<Longrightarrow> iloc xs (- 1) = Inr (xs ! (length xs - 1))"
  by (cases xs) (auto simp: iloc_def nat_diff_distrib')

lemma iloc_last2: "2 \<le> length xs \<Longrightarrow> iloc xs (- 2) = Inr (xs ! (length xs - 2))"
  by (auto simp: iloc_def nat_diff_distrib')

text \<open>
  The helper \<open>calculate_change\<close> alone: with at least two rows and a column of the
  table it returns the cell of the last row minus the cell of the row before it; with
  fewer than two rows it returns 0 and raises nothing (whatever the column name).
\<close>

lemma calculate_change_delta:
  "(len df < 2 \<longrightarrow> calculate_change df c = Inr 0) \<and>
   (2 \<le> len df \<and> c \<in> set (df_columns df) \<longrightarrow>
      calculate_change df c =
        Inr (snd (df_rows df ! (len df - 1)) c - snd (df_rows df ! (len df - 2)) c))"
proof (intro conjI impI)
  assume "len df < 2"
  then show "calculate_change df c = Inr 0"
    by (simp add: calculate_change_def)
next
  assume h: "2 \<le> len df \<and> c \<in> set (df_columns df)"
  let ?col = "map (\<lambda>r. snd r c) (df_rows df)"
  from h have n: "2 \<le> length ?col" and ne: "?col \<noteq> []"
    by (auto simp: len_def)
  have g: "getitem df c = Inr ?col"
    using h by (simp add: getitem_def)
  from h have i1: "len df - 1 < length (df_rows df)" and i2: "len df - 2 < length (df_rows df)"
    by (auto simp: len_def)
  have l1: "iloc ?col (- 1) = Inr (snd (df_rows df ! (len df - 1)) c)"
    using iloc_last [OF ne] nth_map [OF i1, of "\<lambda>r. snd r c"] by (simp add: len_def)
  have l2: "iloc ?col (- 2) = Inr (snd (df_rows df ! (len df - 2)) c)"
    using iloc_last2 [OF n] nth_map [OF i2, of "\<lambda>r. snd r c"] by (simp add: len_def)
  show "calculate_change df c =
      Inr (snd (df_rows df ! (len df - 1)) c - snd (df_rows df ! (len df - 2)) c)"
    using h by (simp add: calculate_change_def g l1 l2 bind_err_def)
qed

lemma calculate_change_fixture:
  "2 \<le> len fixture_table \<and> ''Unemployment_Rate'' \<in> set (df_columns fixture_table) \<and>
   calculate_change fixture_table ''Unemployment_Rate'' = Inr (py_float (39 / 10) - py_float (38 / 10)) \<and>
   len (tail 1 fixture_table) < 2 \<and>
   calculate_change (tail 1 fixture_table) ''Unemployment_Rate'' = Inr 0"
proof -
  have h: "2 \<le> len fixture_table \<and> ''Unemployment_Rate'' \<in> set (df_columns fixture_table)"
    by (simp add: len_def fixture_table_def)
  have s: "len (tail 1 fixture_table) < 2"
    by (simp add: len_def tail_def fixture_table_def)
  from calculate_change_delta [of fixture_table "''Unemployment_Rate''"] h
  have "calculate_change fixture_table ''Unemployment_Rate'' =
      Inr (snd (df_rows fixture_table ! (len fixture_table - 1)) ''Unemployment_Rate''
           - snd (df_rows fixture_table ! (len fixture_table - 2)) ''Unemployment_Rate'')"
    by blast
  then have a: "calculate_change fixture_table ''Unemployment_Rate'' =
      Inr (py_float (39 / 10) - py_float (38 / 10))"
    by (simp add: len_def fixture_table_def fixture_row_def)
  from calculate_change_delta [of "tail 1 fixture_table" "''Unemployment_Rate''"] s
  have b: "calculate_change (tail 1 fixture_table) ''Unemployment_Rate'' = Inr 0"
    by blast
  from h s a b show ?thesis by blast
qed

text \<open>
  A summary card of a loaded table with at least one row shows the latest value and
  the delta of \<open>calculate_change\<close>: 0 for one row, last minus previous otherwise. With
  no row the card's own read of the latest value, \<open>iloc[-1]\<close>, raises before
  \<open>calculate_change\<close> is called, and the pass has already raised at the data-range line.
\<close>

lemma iloc_empty: "iloc [] i = Inl IndexError"
  by (simp add: iloc_def)

lemma iloc_last_row:
  assumes "df_rows df \<noteq> []"
  shows "iloc (map (\<lambda>r. snd r c) (df_rows df)) (- 1) = Inr (snd (df_rows df ! (len df - 1)) c)"
proof -
  have "len df - 1 < length (df_rows df)"
    using assms by (simp add: len_def)
  then show ?thesis
    using assms iloc_last [of "map (\<lambda>r. snd r c) (df_rows df)"]
    by (simp add: len_def)
qed

lemma summary_card_delta:
  assumes "c \<in> set (df_columns df)" and "df_rows df \<noteq> []"
  shows "summary_card L df c lbl mt dt col =
     Inr \<lparr>label = lbl,
          shown_value = format_value L (snd (df_rows df ! (len df - 1)) c) mt,
          delta = dt (if len df < 2 then 0
                      else snd (df_rows df ! (len df - 1)) c - snd (df_rows df ! (len df - 2)) c),
          delta_color = col\<rparr>"
proof -
  have g: "getitem df c = Inr (map (\<lambda>r. snd r c) (df_rows df))"
    using assms(1) by (simp add: getitem_def)
  have ch: "calculate_change df c =
      Inr (if len df < 2 then 0
           else snd (df_rows df ! (len df - 1)) c - snd (df_rows df ! (len df - 2)) c)"
    using calculate_change_delta [of df c] assms(1) by (cases "len df < 2") auto
  show ?thesis
    by (simp add: summary_card_def g iloc_last_row [OF assms(2)] ch bind_err_def)
qed

lemma summary_card_no_rows:
  assumes "c \<in> set (df_columns df)" and "df_rows df = []"
  shows "summary_card L df c lbl mt dt col = Inl IndexError"
  using assms by (simp add: summary_card_def getitem_def iloc_empty bind_err_def)

lemma main_no_rows:
  assumes "load_data L fs = Inr df" and "df_rows df = []"
  shows "main L fs tr sel = Inl (ValueError ''NaTType does not support strftime'')"
  using assms by (simp add: main_def data_range_def bind_err_def)

text \<open>
  C3. The summary-card delta is the last row's value minus the one before it for
  a table of at least two rows, and 0 with no error for a table of one row. For a
  table with no rows the claim fails on the code: \<open>calculate_change\<close> does return 0,
  but the render pass raises before any card is shown (at the data-range line, and the
  cards themselves raise IndexError at \<open>iloc[-1]\<close>). The Fetcher writes such a table when
  no month is complete.
\<close>

theorem no_rows_card_raises:
  "(case clean_and_process_data fixture_pandas fixture_staggered of
      Inl e \<Rightarrow> False
    | Inr df \<Rightarrow> len df = 0 \<and>
        df_columns df = [''Avg_Hourly_Earnings'', ''Avg_Weekly_Hours'',
                         ''Total_Nonfarm_Employees'', ''Unemployment_Rate'']) \<and>
   len header_only_table = 0 \<and>
   calculate_change header_only_table ''Unemployment_Rate'' = Inr 0 \<and>
   summary_cards fixture_lib header_only_table = Inl IndexError \<and>
   main fixture_lib header_only_fs ''Full Range'' options =
     Inl (ValueError ''NaTType does not support strftime'')"
proof -
  have a: "(case clean_and_process_data fixture_pandas fixture_staggered of
      Inl e \<Rightarrow> False
    | Inr df \<Rightarrow> len df = 0 \<and>
        df_columns df = [''Avg_Hourly_Earnings'', ''Avg_Weekly_Hours'',
                         ''Total_Nonfarm_Employees'', ''Unemployment_Rate''])"
    by code_simp
  have b: "len header_only_table = 0"
    by (simp add: len_def header_only_table_def)
  have c: "calculate_change header_only_table ''Unemployment_Rate'' = Inr 0"
    by (simp add: calculate_change_def b)
  have d: "summary_cards fixture_lib header_only_table = Inl IndexError"
    by (simp add: summary_cards_def summary_card_no_rows header_only_table_def bind_err_def)
  have l: "load_data fixture_lib header_only_fs = Inr header_only_table"
    by (simp add: load_data_def header_only_fs_def fixture_lib_def)
  have e: "main fixture_lib header_only_fs ''Full Range'' options =
      Inl (ValueError ''NaTType does not support strftime'')"
    by (rule main_no_rows [OF l]) (simp add: header_only_table_def)
  from a b c d e show ?thesis by blast
qed

text \<open>
  C6. The time-range filter keeps a suffix of the table: "Last 6 Months" (and
  "Last 12 Months") returns the last min(6, len T) (min(12, len T)) rows, in the same
  order and with the same columns, and "Full Range" returns the table itself.
\<close>

theorem filter_time_range_suffix:
  "df_rows (filter_time_range ''Last 6 Months'' T) = drop (len T - min 6 (len T)) (df_rows T) \<and>
   len (filter_time_range ''Last 6 Months'' T) = min 6 (len T) \<and>
   df_columns (filter_time_range ''Last 6 Months'' T) = df_columns T \<and>
   df_rows (filter_time_range ''Last 12 Months'' T) = drop (len T - min 12 (len T)) (df_rows T) \<and>
   len (filter_time_range ''Last 12 Months'' T) = min 12 (len T) \<and>
   df_columns (filter_time_range ''Last 12 Months'' T) = df_columns T \<and>
   filter_time_range ''Full Range'' T = T"
  by (simp add: filter_time_range_def tail_def len_def min_def)

lemma filter_time_range_columns:
  "df_columns (filter_time_range tr df) = df_columns df"
  by (simp add: filter_time_range_def tail_def)

lemma bind_err_Inr: "bind_err (Inr x) f = f x"
  by (simp add: bind_err_def)

lemma bind_err_Inl: "bind_err (Inl e) f = Inl e"
  by (simp add: bind_err_def)

lemma bind_err_eq_Inr:
  "bind_err m f = Inr y \<Longrightarrow> \<exists>x. m = Inr x \<and> f x = Inr y"
  by (cases m) (simp_all add: bind_err_def)

lemma summary_card_column:
  "summary_card L df c lbl mt dt col = Inr x \<Longrightarrow> c \<in> set (df_columns df)"
  by (auto simp: summary_card_def getitem_def bind_err_def split: if_splits)

lemma summary_cards_columns:
  assumes "summary_cards L df = Inr cs"
  shows "set options \<subseteq> set (df_columns df)"
proof -
  from assms obtain c1 c2 c3 c4 where
    "summary_card L df ''Unemployment_Rate'' ''Unemployment Rate'' ''rate''
       (\<lambda>c. format_f L (Fixed True False 1) c @ ''%'') ''inverse'' = Inr c1"
    "summary_card L df ''Total_Nonfarm_Employees'' ''Total Nonfarm Employees'' ''employees''
       (\<lambda>c. format_f L (Fixed True True 0) c @ ''K'') ''normal'' = Inr c2"
    "summary_card L df ''Avg_Hourly_Earnings'' ''Avg Hourly Earnings'' ''earnings''
       (\<lambda>c. ''$'' @ format_f L (Fixed True False 2) c) ''normal'' = Inr c3"
    "summary_card L df ''Avg_Weekly_Hours'' ''Avg Weekly Hours'' ''hours''
       (\<lambda>c. format_f L (Fixed True False 1) c) ''normal'' = Inr c4"
    unfolding summary_cards_def by (auto dest!: bind_err_eq_Inr)
  then show ?thesis
    by (auto simp: options_def dest: summary_card_column)
qed

lemma scatter_option:
  assumes "s \<in> set options" "set options \<subseteq> set (df_columns df)"
  shows "\<exists>n c. (s, n) \<in> set display_names \<and> (s, c) \<in> set colors \<and>
           scatter df s = Inr (trace_of df s n c)"
  using assms
  by (auto simp: scatter_def getitem_def dict_get_def bind_err_def options_def
      display_names_def colors_def trace_of_def)

lemma add_traces_options:
  assumes "set options \<subseteq> set (df_columns df)"
  shows "set sel \<subseteq> set options \<Longrightarrow>
     \<exists>ts. add_traces df sel = Inr ts \<and>
       list_all2 (\<lambda>s t. \<exists>n c. (s, n) \<in> set display_names \<and> (s, c) \<in> set colors \<and>
                     t = trace_of df s n c) sel ts"
proof (induction sel)
  case Nil
  then show ?case by simp
next
  case (Cons s sel)
  then obtain ts where ts: "add_traces df sel = Inr ts"
    "list_all2 (\<lambda>s t. \<exists>n c. (s, n) \<in> set display_names \<and> (s, c) \<in> set colors \<and>
                     t = trace_of df s n c) sel ts"
    by auto
  from Cons.prems assms obtain n c where
    "(s, n) \<in> set display_names" "(s, c) \<in> set colors" "scatter df s = Inr (trace_of df s n c)"
    using scatter_option [of s df] by auto
  with ts show ?case
    by (auto simp: bind_err_def)
qed

lemma add_traces_all:
  assumes "set options \<subseteq> set (df_columns df)"
  shows "add_traces df options =
     Inr [trace_of df ''Unemployment_Rate'' ''Unemployment Rate (%)'' ''#FF6B6B'',
          trace_of df ''Total_Nonfarm_Employees'' ''Total Nonfarm Employees (thousands)'' ''#4ECDC4'',
          trace_of df ''Avg_Hourly_Earnings'' ''Avg Hourly Earnings ($)'' ''#45B7D1'',
          trace_of df ''Avg_Weekly_Hours'' ''Avg Weekly Hours'' ''#FFA07A'']"
  using assms
  by (simp add: options_def scatter_def getitem_def dict_get_def bind_err_def
      display_names_def colors_def trace_of_def)

lemma render_chart_empty:
  "render_chart df [] = Inr (Warning ''Please select at least one series to display.'')"
  by (simp add: render_chart_def)

lemma fixture_load: "load_data fixture_lib fixture_fs = Inr fixture_table"
  by (simp add: load_data_def fixture_fs_def fixture_lib_def)

lemma fixture_range:
  "data_range fixture_lib fixture_table = Inr ''Data Range: 202401 to 202403''"
  by code_simp

lemma fixture_summary: "summary_cards fixture_lib fixture_table = Inr fixture_cards"
  by code_simp

text \<open>
  C7. Chart rendering never raises for a selection made in the widget (a list of
  the four options), once the pass has reached the chart: the table then has the four
  indicator columns, since the summary cards read them first. An empty selection gives
  no chart but the prompt; any other selection gives one trace per selected series, in
  the order selected, each with the display name and colour the two tables give it; a
  selection of all four gives exactly the four traces listed.
\<close>

theorem chart_never_throws:
  assumes "load_data L fs = Inr df" and "data_range L df = Inr i"
    and "summary_cards L df = Inr cs" and "set sel \<subseteq> set options"
  shows "\<exists>ch. main L fs tr sel =
            Inr (Rendered \<lparr>info = i, cards = cs, chart = ch,
                           raw_data = sort_date_desc (filter_time_range tr df)\<rparr>) \<and>
          (if sel = [] then ch = Warning ''Please select at least one series to display.''
           else \<exists>ts. ch = Chart ts \<and>
                  list_all2 (\<lambda>s t. \<exists>n c. (s, n) \<in> set display_names \<and> (s, c) \<in> set colors \<and>
                                t = trace_of (filter_time_range tr df) s n c) sel ts) \<and>
          (sel = options \<longrightarrow>
             ch = Chart
               [trace_of (filter_time_range tr df) ''Unemployment_Rate''
                  ''Unemployment Rate (%)'' ''#FF6B6B'',
                trace_of (filter_time_range tr df) ''Total_Nonfarm_Employees''
                  ''Total Nonfarm Employees (thousands)'' ''#4ECDC4'',
                trace_of (filter_time_range tr df) ''Avg_Hourly_Earnings''
                  ''Avg Hourly Earnings ($)'' ''#45B7D1'',
                trace_of (filter_time_range tr df) ''Avg_Weekly_Hours''
                  ''Avg Weekly Hours'' ''#FFA07A''])"
proof -
  let ?d = "filter_time_range tr df"
  have cols: "set options \<subseteq> set (df_columns ?d)"
    using summary_cards_columns [OF assms(3)] by (simp add: filter_time_range_columns)
  from add_traces_options [OF cols assms(4)]
  obtain ts where ts: "add_traces ?d sel = Inr ts"
    "list_all2 (\<lambda>s t. \<exists>n c. (s, n) \<in> set display_names \<and> (s, c) \<in> set colors \<and>
                  t = trace_of ?d s n c) sel ts"
    by blast
  define ch where "ch = (if sel = [] then Warning ''Please select at least one series to display.''
                         else Chart ts)"
  have rc: "render_chart ?d sel = Inr ch"
    by (simp add: render_chart_def ch_def ts bind_err_def)
  have m: "main L fs tr sel =
      Inr (Rendered \<lparr>info = i, cards = cs, chart = ch, raw_data = sort_date_desc ?d\<rparr>)"
    by (simp add: main_def assms(1,2,3) rc bind_err_def)
  have all: "sel = options \<longrightarrow> ch = Chart
               [trace_of ?d ''Unemployment_Rate'' ''Unemployment Rate (%)'' ''#FF6B6B'',
                trace_of ?d ''Total_Nonfarm_Employees''
                  ''Total Nonfarm Employees (thousands)'' ''#4ECDC4'',
                trace_of ?d ''Avg_Hourly_Earnings'' ''Avg Hourly Earnings ($)'' ''#45B7D1'',
                trace_of ?d ''Avg_Weekly_Hours'' ''Avg Weekly Hours'' ''#FFA07A'']"
  proof
    assume s: "sel = options"
    then have "sel \<noteq> []" by (simp add: options_def)
    moreover have "Inr ts = add_traces ?d options" using ts s by simp
    ultimately show "ch = Chart
               [trace_of ?d ''Unemployment_Rate'' ''Unemployment Rate (%)'' ''#FF6B6B'',
                trace_of ?d ''Total_Nonfarm_Employees''
                  ''Total Nonfarm Employees (thousands)'' ''#4ECDC4'',
                trace_of ?d ''Avg_Hourly_Earnings'' ''Avg Hourly Earnings ($)'' ''#45B7D1'',
                trace_of ?d ''Avg_Weekly_Hours'' ''Avg Weekly Hours'' ''#FFA07A'']"
      unfolding ch_def using add_traces_all [OF cols] by simp
  qed
  have sel: "if sel = [] then ch = Warning ''Please select at least one series to display.''
           else \<exists>ts. ch = Chart ts \<and>
                  list_all2 (\<lambda>s t. \<exists>n c. (s, n) \<in> set display_names \<and> (s, c) \<in> set colors \<and>
                                t = trace_of ?d s n c) sel ts"
    using ts(2) by (auto simp: ch_def)
  from m sel all show ?thesis
    by blast
qed

theorem chart_never_throws_witness:
  "load_data fixture_lib fixture_fs = Inr fixture_table \<and>
   data_range fixture_lib fixture_table = Inr ''Data Range: 202401 to 202403'' \<and>
   summary_cards fixture_lib fixture_table = Inr fixture_cards \<and>
   set options \<subseteq> set options \<and>
   main fixture_lib fixture_fs ''Last 6 Months'' options =
     Inr (Rendered \<lparr>info = ''Data Range: 202401 to 202403'', cards = fixture_cards,
        chart = Chart
          [trace_of (filter_time_range ''Last 6 Months'' fixture_table) ''Unemployment_Rate''
             ''Unemployment Rate (%)'' ''#FF6B6B'',
           trace_of (filter_time_range ''Last 6 Months'' fixture_table) ''Total_Nonfarm_Employees''
             ''Total Nonfarm Employees (thousands)'' ''#4ECDC4'',
           trace_of (filter_time_range ''Last 6 Months'' fixture_table) ''Avg_Hourly_Earnings''
             ''Avg Hourly Earnings ($)'' ''#45B7D1'',
           trace_of (filter_time_range ''Last 6 Months'' fixture_table) ''Avg_Weekly_Hours''
             ''Avg Weekly Hours'' ''#FFA07A''],
        raw_data = sort_date_desc (filter_time_range ''Last 6 Months'' fixture_table)\<rparr>)"
proof -
  have s: "set options \<subseteq> set options" by simp
  from chart_never_throws [OF fixture_load fixture_range fixture_summary s, of "''Last 6 Months''"]
  show ?thesis
    using fixture_load fixture_range fixture_summary by auto
qed

text \<open>
  C8. When \<open>labor_data.csv\<close> does not exist at load time, the pass shows the error
  message that tells the user to run \<open>get_data.py\<close> and stops: nothing after the static
  title and introduction is rendered, and no exception escapes.
\<close>

theorem missing_file_halts:
  assumes "fs ''labor_data.csv'' = None"
  shows "main L fs tr sel = Inr (Stopped missing_file_message)"
  using assms by (simp add: main_def load_data_def)

theorem missing_file_halts_witness:
  "(Map.empty :: string \<rightharpoonup> (int, rat) dataframe) ''labor_data.csv'' = None \<and>
   main fixture_lib Map.empty ''Full Range'' options =
     Inr (Stopped
       ''Data file 'labor_data.csv' not found. Please run 'get_data.py' first to fetch the data.'')"
proof -
  have h: "(Map.empty :: string \<rightharpoonup> (int, rat) dataframe) ''labor_data.csv'' = None"
    by simp
  from missing_file_halts [OF h, of fixture_lib "''Full Range''" options]
  show ?thesis
    by (simp add: missing_file_message_def)
qed

lemma add_traces_error_columns:
  assumes "df_columns d1 = df_columns d2"
  shows "(case add_traces d1 sel of
            Inl e \<Rightarrow> add_traces d2 sel = Inl e
          | Inr ts \<Rightarrow> \<exists>ts'. add_traces d2 sel = Inr ts')"
proof (induction sel)
  case Nil
  then show ?case by simp
next
  case (Cons s sel)
  have sc: "(case scatter d1 s of Inl e \<Rightarrow> scatter d2 s = Inl e
             | Inr t \<Rightarrow> \<exists>t'. scatter d2 s = Inr t')"
    using assms
    by (auto simp: scatter_def getitem_def dict_get_def bind_err_def
        split: option.splits sum.splits)
  with Cons.IH show ?case
    by (auto simp: bind_err_def split: sum.splits)
qed

lemma render_chart_error_columns:
  assumes "df_columns d1 = df_columns d2"
  shows "(case render_chart d1 sel of
            Inl e \<Rightarrow> render_chart d2 sel = Inl e
          | Inr c \<Rightarrow> \<exists>c'. render_chart d2 sel = Inr c')"
  using add_traces_error_columns [OF assms, of sel]
  by (auto simp: render_chart_def bind_err_def split: sum.splits)

text \<open>
  C10. The data-range line and the four summary cards are computed from the table
  as loaded, not from the filtered one: two passes over the same files and selection
  that differ only in the time range both raise the same error, or both stop with the
  same message, or both render the same data-range line and the same cards, which are
  those of the full table. Only the chart and the raw-data view depend on the range.
\<close>

theorem cards_ignore_time_range:
  "(case (main L fs tr1 sel, main L fs tr2 sel) of
      (Inl e1, Inl e2) \<Rightarrow> e1 = e2
    | (Inr (Stopped m1), Inr (Stopped m2)) \<Rightarrow> m1 = m2
    | (Inr (Rendered v1), Inr (Rendered v2)) \<Rightarrow>
        info v1 = info v2 \<and> cards v1 = cards v2 \<and>
        (\<exists>df. load_data L fs = Inr df \<and> summary_cards L df = Inr (cards v1) \<and>
              data_range L df = Inr (info v1))
    | _ \<Rightarrow> False)"
proof (cases "load_data L fs")
  case (Inl e)
  then show ?thesis
    by (cases e) (simp_all add: main_def)
next
  case (Inr df)
  have cols: "df_columns (filter_time_range tr1 df) = df_columns (filter_time_range tr2 df)"
    by (simp add: filter_time_range_columns)
  show ?thesis
    using render_chart_error_columns [OF cols, of sel]
    by (auto simp: main_def Inr bind_err_def split: sum.splits)
qed

theorem cards_ignore_time_range_witness:
  "\<exists>v1 v2. main fixture_lib fixture_fs ''Last 6 Months'' [] = Inr (Rendered v1) \<and>
     main fixture_lib fixture_fs ''Full Range'' [] = Inr (Rendered v2) \<and>
     info v1 = info v2 \<and> cards v1 = cards v2 \<and> cards v1 = fixture_cards"
proof -
  have m1: "main fixture_lib fixture_fs ''Last 6 Months'' [] =
      Inr (Rendered \<lparr>info = ''Data Range: 202401 to 202403'', cards = fixture_cards,
        chart = Warning ''Please select at least one series to display.'',
        raw_data = sort_date_desc (filter_time_range ''Last 6 Months'' fixture_table)\<rparr>)"
    by (simp add: main_def fixture_load fixture_range fixture_summary render_chart_empty
        bind_err_def)
  have m2: "main fixture_lib fixture_fs ''Full Range'' [] =
      Inr (Rendered \<lparr>info = ''Data Range: 202401 to 202403'', cards = fixture_cards,
        chart = Warning ''Please select at least one series to display.'',
        raw_data = sort_date_desc (filter_time_range ''Full Range'' fixture_table)\<rparr>)"
    by (simp add: main_def fixture_load fixture_range fixture_summary render_chart_empty
        bind_err_def)
  from cards_ignore_time_range [of fixture_lib fixture_fs "''Last 6 Months''" "[]" "''Full Range''"]
  show ?thesis
    by (simp add: m1 m2)
qed

text \<open>The float that the literal \<open>3.95\<close> denotes lies just above 3.95.\<close>

lemma py_float_3_95: "py_float (395 / 100) = 4447304632028365 / 1125899906842624"
  by code_simp

lemma fmt_rate_a: "format_fixed (Fixed False False 1) (py_float (395 / 100)) = ''4.0''"
  by code_simp

lemma fmt_rate_b: "format_fixed (Fixed False False 1) (py_float (4963 / 1000)) = ''5.0''"
  by code_simp

lemma fmt_employees: "format_fixed (Fixed False True 0) (py_float 150234) = ''150,234''"
  by code_simp

lemma fmt_earnings: "format_fixed (Fixed False False 2) (py_float (285 / 10)) = ''28.50''"
  by code_simp

lemma fmt_hours: "format_fixed (Fixed False False 1) (py_float (343 / 10)) = ''34.3''"
  by code_simp

text \<open>
  C5. With Python's fixed-point formatting, the formatter gives the documented
  strings: 3.95 and 4.963 as rates are "4.0%" and "5.0%", 150234 employees is
  "150,234K", 28.5 as earnings is "$28.50" and 34.3 hours is "34.3". The numbers are
  the floats the literals denote; the other library functions play no part.
\<close>

theorem format_value_examples:
  "format_value (L\<lparr>format_f := format_fixed\<rparr>) (py_float (395 / 100)) ''rate'' = ''4.0%'' \<and>
   format_value (L\<lparr>format_f := format_fixed\<rparr>) (py_float (4963 / 1000)) ''rate'' = ''5.0%'' \<and>
   format_value (L\<lparr>format_f := format_fixed\<rparr>) (py_float 150234) ''employees'' = ''150,234K'' \<and>
   format_value (L\<lparr>format_f := format_fixed\<rparr>) (py_float (285 / 10)) ''earnings'' = ''$28.50'' \<and>
   format_value (L\<lparr>format_f := format_fixed\<rparr>) (py_float (343 / 10)) ''hours'' = ''34.3''"
  using fmt_rate_a fmt_rate_b fmt_employees fmt_earnings fmt_hours
  by (simp add: format_value_def)

section \<open>Properties of the Fetcher\<close>

lemma fixture_clean_eval:
  "(case clean_and_process_data fixture_pandas fixture_payload of
      Inl e \<Rightarrow> False
    | Inr df \<Rightarrow>
        date_column df = [''2024-01-01'', ''2024-02-01''] \<and>
        df_columns df = [''Total_Nonfarm_Employees'', ''Unemployment_Rate''] \<and>
        unpivot df =
          [(''2024-01-01'', ''Total_Nonfarm_Employees'', ''157000''),
           (''2024-01-01'', ''Unemployment_Rate'', ''3.7''),
           (''2024-02-01'', ''Total_Nonfarm_Employees'', ''157200''),
           (''2024-02-01'', ''Unemployment_Rate'', ''3.8'')])"
  by code_simp

lemma fixture_long_eval:
  "long_frame fixture_pandas (all_data fixture_payload) =
     Inr [(''2024-03-01'', ''Unemployment_Rate'', Some ''3.9''),
          (''2024-02-01'', ''Unemployment_Rate'', Some ''3.8''),
          (''2024-01-01'', ''Unemployment_Rate'', Some ''3.7''),
          (''2024-02-01'', ''Total_Nonfarm_Employees'', Some ''157200''),
          (''2024-01-01'', ''Total_Nonfarm_Employees'', Some ''157000'')]"
  by code_simp

lemma fixture_written_file: "fixture_written ''labor_data.csv'' \<noteq> None"
  using fixture_clean_eval
  by (auto simp: fixture_written_def run_def fetch_bls_data_def fixture_ok_def
      fixture_payload_def split: sum.splits)

lemma str_int_503: "str_int 503 = ''503''"
  by code_simp

text \<open>
  C1. When the status code is not 200 (so in particular when it is not a success
  code), or the payload's status field is not "REQUEST_SUCCEEDED" (absent included),
  the run raises an exception whose message names the status code, respectively the
  API's message, and the file system is the one the run started with: nothing is
  written, so an earlier \<open>labor_data.csv\<close> is unchanged.
\<close>

theorem failed_fetch_writes_nothing:
  assumes "status_code r \<noteq> 200 \<or>
           (\<exists>p. json_body r = Some p \<and> p_status p \<noteq> Some ''REQUEST_SUCCEEDED'')"
  shows "\<exists>msg. run P r fs = (Inl (Exception msg), fs) \<and>
           (if status_code r \<noteq> 200
            then msg = ''API request failed with status code '' @ str_int (status_code r)
            else \<exists>p. json_body r = Some p \<and>
                   msg = ''API request failed: '' @
                     (case p_message p of None \<Rightarrow> ''Unknown error'' | Some m \<Rightarrow> m))"
  using assms by (auto simp: run_def fetch_bls_data_def)

theorem failed_fetch_writes_nothing_witness:
  "fixture_written ''labor_data.csv'' \<noteq> None \<and>
   status_code fixture_unavailable \<noteq> 200 \<and>
   run fixture_pandas fixture_unavailable fixture_written =
     (Inl (Exception ''API request failed with status code 503''), fixture_written) \<and>
   status_code fixture_refused = 200 \<and>
   json_body fixture_refused =
     Some \<lparr>p_status = Some ''REQUEST_NOT_PROCESSED'',
           p_message = Some ''daily threshold reached'', p_series = []\<rparr> \<and>
   run fixture_pandas fixture_refused fixture_written =
     (Inl (Exception ''API request failed: daily threshold reached''), fixture_written)"
proof -
  have u: "status_code fixture_unavailable \<noteq> 200 \<or>
      (\<exists>p. json_body fixture_unavailable = Some p \<and> p_status p \<noteq> Some ''REQUEST_SUCCEEDED'')"
    by (simp add: fixture_unavailable_def)
  have r: "status_code fixture_refused \<noteq> 200 \<or>
      (\<exists>p. json_body fixture_refused = Some p \<and> p_status p \<noteq> Some ''REQUEST_SUCCEEDED'')"
    by (simp add: fixture_refused_def)
  from failed_fetch_writes_nothing [OF u, of fixture_pandas fixture_written]
  have a: "run fixture_pandas fixture_unavailable fixture_written =
      (Inl (Exception ''API request failed with status code 503''), fixture_written)"
    by (auto simp: fixture_unavailable_def str_int_503)
  from failed_fetch_writes_nothing [OF r, of fixture_pandas fixture_written]
  have b: "run fixture_pandas fixture_refused fixture_written =
      (Inl (Exception ''API request failed: daily threshold reached''), fixture_written)"
    by (auto simp: fixture_refused_def)
  show ?thesis
    using a b fixture_written_file by (simp add: fixture_unavailable_def fixture_refused_def)
qed

lemma clean_Inr:
  assumes "clean_and_process_data P resp = Inr df"
  shows "\<exists>long. long_frame P (all_data resp) = Inr long \<and> distinct (map pivot_key long) \<and>
           df = dropna (sort_values_date (pivot_frame long))"
proof -
  from assms obtain long pv ri where
    l: "long_frame P (all_data resp) = Inr long" and
    p: "pivot long = Inr pv" and
    r: "reset_index pv = Inr ri" and
    d: "df = dropna (sort_values_date ri)"
    unfolding clean_and_process_data_def by (auto dest!: bind_err_eq_Inr)
  from p have "distinct (map pivot_key long)" and "pv = pivot_frame long"
    by (auto simp: pivot_def split: if_splits)
  moreover from r have "ri = pv"
    by (auto simp: reset_index_def split: if_splits)
  ultimately show ?thesis using l d by auto
qed

lemma pivot_cell_Some:
  assumes "distinct (map pivot_key long)"
  shows "pivot_cell long d n = Some v \<longleftrightarrow> (d, n, Some v) \<in> set long"
proof -
  let ?kvs = "map (\<lambda>r. (pivot_key r, snd (snd r))) long"
  have dk: "distinct (map fst ?kvs)"
    using assms by (simp add: comp_def)
  have "pivot_cell long d n = Some v \<longleftrightarrow> map_of ?kvs (d, n) = Some (Some v)"
    by (auto simp: pivot_cell_def split: option.splits)
  also have "\<dots> \<longleftrightarrow> ((d, n), Some v) \<in> set ?kvs"
    using dk by simp
  also have "\<dots> \<longleftrightarrow> (d, n, Some v) \<in> set long"
    by (force simp: pivot_key_def)
  finally show ?thesis .
qed

lemma sorted_rows_pivot_frame:
  "sort_key fst (df_rows (pivot_frame long)) = df_rows (pivot_frame long)"
  by (rule sort_key_id_if_sorted) (simp add: pivot_frame_def comp_def)

lemma rows_clean:
  "df_rows (dropna (sort_values_date (pivot_frame long))) =
     filter (complete_row (df_columns (pivot_frame long))) (df_rows (pivot_frame long))"
  by (simp add: dropna_def sort_values_date_def sorted_rows_pivot_frame)

lemma columns_clean:
  "df_columns (dropna (sort_values_date (pivot_frame long))) = df_columns (pivot_frame long)"
  by (simp add: dropna_def sort_values_date_def)

lemma dates_pivot_frame:
  "map fst (df_rows (pivot_frame long)) = sort (remdups (map fst long))"
  by (simp add: pivot_frame_def comp_def)

lemma strict_dates_clean:
  "sorted_wrt (<) (date_column (dropna (sort_values_date (pivot_frame long))))"
proof -
  have "sorted_wrt (<) (map fst (df_rows (pivot_frame long)))"
    by (simp add: dates_pivot_frame strict_sorted_iff)
  then have "sorted_wrt (\<lambda>r s. fst r < fst s) (df_rows (pivot_frame long))"
    by (simp add: sorted_wrt_map)
  then have "sorted_wrt (\<lambda>r s. fst r < fst s)
      (filter (complete_row (df_columns (pivot_frame long))) (df_rows (pivot_frame long)))"
    by (rule sorted_wrt_filter)
  then show ?thesis
    by (simp add: date_column_def rows_clean sorted_wrt_map)
qed

lemma no_missing_clean:
  assumes "r \<in> set (df_rows (dropna df))" and "c \<in> set (df_columns (dropna df))"
  shows "snd r c \<noteq> None"
  using assms by (auto simp: dropna_def complete_row_def list_all_iff)

lemma set_unpivot:
  "set (unpivot df) =
     {(d, c, v). \<exists>r \<in> set (df_rows df). fst r = d \<and> c \<in> set (df_columns df) \<and> snd r c = Some v}"
  by (auto simp: unpivot_def split: option.splits)

lemma unpivot_clean:
  assumes "distinct (map pivot_key long)"
  shows "set (unpivot (dropna (sort_values_date (pivot_frame long)))) =
     {(d, c, v). (d, c, Some v) \<in> set long \<and>
        d \<in> set (date_column (dropna (sort_values_date (pivot_frame long))))}"
    (is "set (unpivot ?df) = ?R")
proof -
  have rows: "df_rows ?df =
      filter (complete_row (df_columns (pivot_frame long))) (df_rows (pivot_frame long))"
    by (rule rows_clean)
  have cell: "snd r c = pivot_cell long (fst r) c" if "r \<in> set (df_rows ?df)" for r c
    using that unfolding rows by (auto simp: pivot_frame_def)
  have col: "c \<in> set (df_columns ?df)" if "(d, c, v) \<in> set long" for d c v
  proof -
    from that have "fst (snd (d, c, v)) \<in> (\<lambda>r. fst (snd r)) ` set long"
      by (rule imageI)
    then show ?thesis
      unfolding columns_clean by (simp add: pivot_frame_def)
  qed
  show ?thesis
  proof (intro set_eqI iffI)
    fix x assume "x \<in> set (unpivot ?df)"
    then obtain d c v r where x: "x = (d, c, v)" and r: "r \<in> set (df_rows ?df)"
      and f: "fst r = d" and s: "snd r c = Some v"
      by (auto simp: set_unpivot)
    from r s f have "pivot_cell long d c = Some v"
      using cell [OF r, of c] by simp
    then have "(d, c, Some v) \<in> set long"
      using pivot_cell_Some [OF assms] by simp
    moreover from r f have "d \<in> set (date_column ?df)"
      by (auto simp: date_column_def)
    ultimately show "x \<in> ?R" using x by simp
  next
    fix x assume "x \<in> ?R"
    then obtain d c v where x: "x = (d, c, v)" and m: "(d, c, Some v) \<in> set long"
      and d: "d \<in> set (date_column ?df)"
      by auto
    from d obtain r where r: "r \<in> set (df_rows ?df)" and f: "fst r = d"
      by (auto simp: date_column_def)
    from m have "pivot_cell long d c = Some v"
      using pivot_cell_Some [OF assms] by simp
    then have "snd r c = Some v"
      using cell [OF r, of c] f by simp
    with r f col [OF m] show "x \<in> set (unpivot ?df)"
      unfolding x set_unpivot by auto
  qed
qed

text \<open>
  C2. Whenever the reshape step returns a table, no cell of it is missing, its
  dates are strictly increasing (hence unique), and unpivoting it gives exactly the
  observations of the converted long frame that have a value and whose date is a date
  of the table.
\<close>

theorem reshape_invariants:
  assumes "clean_and_process_data P resp = Inr df"
  shows "(\<forall>r \<in> set (df_rows df). \<forall>c \<in> set (df_columns df). snd r c \<noteq> None) \<and>
         sorted_wrt (<) (date_column df) \<and>
         (\<exists>long. long_frame P (all_data resp) = Inr long \<and>
            set (unpivot df) =
              {(d, c, v). (d, c, Some v) \<in> set long \<and> d \<in> set (date_column df)})"
proof -
  from clean_Inr [OF assms] obtain long where
    l: "long_frame P (all_data resp) = Inr long" and
    k: "distinct (map pivot_key long)" and
    d: "df = dropna (sort_values_date (pivot_frame long))"
    by blast
  have "\<forall>r \<in> set (df_rows df). \<forall>c \<in> set (df_columns df). snd r c \<noteq> None"
    unfolding d using no_missing_clean by blast
  moreover have "sorted_wrt (<) (date_column df)"
    unfolding d by (rule strict_dates_clean)
  moreover have "set (unpivot df) =
      {(d, c, v). (d, c, Some v) \<in> set long \<and> d \<in> set (date_column df)}"
    unfolding d by (rule unpivot_clean [OF k])
  ultimately show ?thesis using l by blast
qed

theorem reshape_invariants_witness:
  "\<exists>df. clean_and_process_data fixture_pandas fixture_payload = Inr df \<and>
     date_column df = [''2024-01-01'', ''2024-02-01''] \<and>
     df_columns df = [''Total_Nonfarm_Employees'', ''Unemployment_Rate''] \<and>
     sorted_wrt (<) (date_column df) \<and>
     set (unpivot df) =
       {(''2024-01-01'', ''Total_Nonfarm_Employees'', ''157000''),
        (''2024-01-01'', ''Unemployment_Rate'', ''3.7''),
        (''2024-02-01'', ''Total_Nonfarm_Employees'', ''157200''),
        (''2024-02-01'', ''Unemployment_Rate'', ''3.8'')}"
proof -
  from fixture_clean_eval obtain df where
    c: "clean_and_process_data fixture_pandas fixture_payload = Inr df" and
    d: "date_column df = [''2024-01-01'', ''2024-02-01'']" and
    k: "df_columns df = [''Total_Nonfarm_Employees'', ''Unemployment_Rate'']" and
    u: "unpivot df =
          [(''2024-01-01'', ''Total_Nonfarm_Employees'', ''157000''),
           (''2024-01-01'', ''Unemployment_Rate'', ''3.7''),
           (''2024-02-01'', ''Total_Nonfarm_Employees'', ''157200''),
           (''2024-02-01'', ''Unemployment_Rate'', ''3.8'')]"
    by (auto split: sum.splits)
  from reshape_invariants [OF c] have "sorted_wrt (<) (date_column df)"
    by blast
  with c d k u show ?thesis
    by (intro exI [of _ df]) simp
qed

lemma convert_rows_keys:
  "convert_rows P es = Inr long \<Longrightarrow>
   map pivot_key long = map (\<lambda>e. (the (to_datetime P (e_date e)), e_series_name e)) es"
proof (induction es arbitrary: long)
  case Nil
  then show ?case by simp
next
  case (Cons e es)
  then show ?case
    by (auto simp: bind_err_def pivot_key_def split: option.splits sum.splits)
qed

lemma convert_rows_total:
  "(\<forall>e \<in> set es. to_datetime P (e_date e) \<noteq> None) \<Longrightarrow> \<exists>long. convert_rows P es = Inr long"
  by (induction es) (auto simp: bind_err_def)

lemma duplicate_keys:
  assumes "\<not> distinct (map (\<lambda>e. (e_date e, e_series_name e)) es)"
    and "convert_rows P es = Inr long"
  shows "\<not> distinct (map pivot_key long)"
proof
  assume d: "distinct (map pivot_key long)"
  define raw where "raw = map (\<lambda>e. (e_date e, e_series_name e)) es"
  have "map pivot_key long = map (\<lambda>k. (the (to_datetime P (fst k)), snd k)) raw"
    using convert_rows_keys [OF assms(2)] by (simp add: raw_def comp_def)
  with d have "distinct (map (\<lambda>k. (the (to_datetime P (fst k)), snd k)) raw)"
    by simp
  then have "distinct raw"
    by (simp only: distinct_map)
  with assms(1) show False by (simp add: raw_def)
qed

lemma duplicate_clean:
  assumes "\<not> distinct (map (\<lambda>e. (e_date e, e_series_name e)) (all_data resp))"
  shows "(\<exists>e. clean_and_process_data P resp = Inl e) \<and>
         ((\<forall>e \<in> set (all_data resp). to_datetime P (e_date e) \<noteq> None) \<longrightarrow>
            clean_and_process_data P resp =
              Inl (ValueError ''Index contains duplicate entries, cannot reshape''))"
proof -
  from assms have ne: "all_data resp \<noteq> []" by auto
  show ?thesis
  proof (cases "convert_rows P (all_data resp)")
    case (Inl e)
    then show ?thesis
      using convert_rows_total [of "all_data resp" P]
      by (auto simp: clean_and_process_data_def long_frame_def ne bind_err_def)
  next
    case (Inr long)
    from duplicate_keys [OF assms Inr] show ?thesis
      by (simp add: clean_and_process_data_def long_frame_def ne Inr bind_err_def pivot_def)
  qed
qed

lemma clean_succeeds:
  assumes "all_data resp \<noteq> []"
    and "\<forall>e \<in> set (all_data resp). to_datetime P (e_date e) \<noteq> None"
    and "distinct (map (\<lambda>e. (the (to_datetime P (e_date e)), e_series_name e)) (all_data resp))"
    and "''date'' \<notin> e_series_name ` set (all_data resp)"
  shows "\<exists>df. clean_and_process_data P resp = Inr df"
proof -
  from convert_rows_total [OF assms(2)] obtain long where
    l: "convert_rows P (all_data resp) = Inr long" by blast
  have k: "map pivot_key long =
      map (\<lambda>e. (the (to_datetime P (e_date e)), e_series_name e)) (all_data resp)"
    by (rule convert_rows_keys [OF l])
  then have "map (\<lambda>r. fst (snd r)) long = map e_series_name (all_data resp)"
    by (auto simp: pivot_key_def list_eq_iff_nth_eq dest!: arg_cong [where f = "map snd"])
  then have n: "''date'' \<notin> set (df_columns (pivot_frame long))"
    using assms(4) by (simp add: pivot_frame_def del: map_map)
  show ?thesis
    using assms(1,3) l k n
    by (simp add: clean_and_process_data_def long_frame_def pivot_def reset_index_def
        bind_err_def)
qed

text \<open>
  C9. When two kept observations have the same date string and series name, the
  reshape step raises: the pivot's ValueError when every date parses (a date-parsing
  error otherwise). The run then ends with that error and the file system unchanged.
\<close>

theorem duplicate_observation_aborts:
  assumes "\<not> distinct (map (\<lambda>e. (e_date e, e_series_name e)) (all_data resp))"
  shows "(\<exists>e. clean_and_process_data P resp = Inl e) \<and>
         ((\<forall>e \<in> set (all_data resp). to_datetime P (e_date e) \<noteq> None) \<longrightarrow>
            clean_and_process_data P resp =
              Inl (ValueError ''Index contains duplicate entries, cannot reshape'')) \<and>
         (\<forall>r fs. json_body r = Some resp \<longrightarrow> (\<exists>e. run P r fs = (Inl e, fs)))"
proof -
  note d = duplicate_clean [OF assms, of P]
  then obtain e where e: "clean_and_process_data P resp = Inl e" by blast
  have "\<exists>e'. run P r fs = (Inl e', fs)" if "json_body r = Some resp" for r fs
    using that e by (auto simp: run_def fetch_bls_data_def)
  with d show ?thesis by blast
qed

theorem duplicate_observation_aborts_witness:
  "\<not> distinct (map (\<lambda>e. (e_date e, e_series_name e)) (all_data fixture_duplicate)) \<and>
   clean_and_process_data fixture_pandas fixture_duplicate =
     Inl (ValueError ''Index contains duplicate entries, cannot reshape'') \<and>
   (\<exists>e. run fixture_pandas \<lparr>status_code = 200, json_body = Some fixture_duplicate\<rparr>
          fixture_written = (Inl e, fixture_written))"
proof -
  have h: "\<not> distinct (map (\<lambda>e. (e_date e, e_series_name e)) (all_data fixture_duplicate))"
    by (simp add: all_data_def fixture_duplicate_def obs_def)
  have p: "\<forall>e \<in> set (all_data fixture_duplicate). to_datetime fixture_pandas (e_date e) \<noteq> None"
    by (simp add: fixture_pandas_def)
  from duplicate_observation_aborts [OF h, of fixture_pandas] p
  have "clean_and_process_data fixture_pandas fixture_duplicate =
      Inl (ValueError ''Index contains duplicate entries, cannot reshape'')"
    and "\<exists>e. run fixture_pandas \<lparr>status_code = 200, json_body = Some fixture_duplicate\<rparr>
          fixture_written = (Inl e, fixture_written)"
    by auto
  with h show ?thesis by blast
qed

lemma process_items_eq:
  "process_items name items =
     map (\<lambda>it. \<lparr>e_date = item_year it @ ''-'' @ drop 1 (item_period it) @ ''-01'',
                e_series_name = name, e_value = item_value it\<rparr>)
         (filter (\<lambda>it. take 1 (item_period it) = ''M'') items)"
  by (induction items) auto

lemma process_series_eq:
  "process_series ss =
     concat (map (\<lambda>s. process_items (series_name (seriesID s)) (series_data s)) ss)"
  by (induction ss) auto

text \<open>
  C4 (as the code has it). The reshape loop keeps an observation exactly when its
  period begins with \<open>M\<close>; a kept observation becomes the entry with the date string
  \<open>year-rest-01\<close>, where \<open>rest\<close> is the period after its first character, the
  descriptor-resolved column name and the value. The periods \<open>M01\<close> to \<open>M12\<close> begin
  with \<open>M\<close> and leave the two-digit month, so they give first-of-month dates. An
  identifier that is not in the series-descriptor mapping is its own column name.
\<close>

theorem reshape_keeps_M_periods:
  "all_data resp =
     concat (map (\<lambda>s.
        map (\<lambda>it. \<lparr>e_date = item_year it @ ''-'' @ drop 1 (item_period it) @ ''-01'',
                   e_series_name = series_name (seriesID s), e_value = item_value it\<rparr>)
            (filter (\<lambda>it. \<exists>rest. item_period it = CHR ''M'' # rest) (series_data s)))
        (p_series resp)) \<and>
   (\<forall>name it. (process_items name [it] \<noteq> []) = (\<exists>rest. item_period it = CHR ''M'' # rest)) \<and>
   (\<forall>name it rest. item_period it = CHR ''M'' # rest \<longrightarrow>
      process_items name [it] =
        [\<lparr>e_date = item_year it @ ''-'' @ rest @ ''-01'', e_series_name = name,
          e_value = item_value it\<rparr>]) \<and>
   (\<forall>p \<in> set monthly_periods. \<exists>rest. p = CHR ''M'' # rest \<and> length rest = 2) \<and>
   (map_of series_names sid = None \<longrightarrow> series_name sid = sid) \<and>
   (\<forall>n. (sid, n) \<in> set series_names \<longrightarrow> series_name sid = n)"
proof -
  have a: "(take (Suc 0) p = ''M'') = (\<exists>rest. p = CHR ''M'' # rest)" for p :: string
    by (cases p) auto
  have b: "\<forall>p \<in> set monthly_periods. \<exists>rest. p = CHR ''M'' # rest \<and> length rest = 2"
    by (simp add: monthly_periods_def)
  have c: "\<forall>n. (sid, n) \<in> set series_names \<longrightarrow> series_name sid = n"
    by (auto simp: series_name_def series_names_def)
  have d: "all_data resp =
     concat (map (\<lambda>s.
        map (\<lambda>it. \<lparr>e_date = item_year it @ ''-'' @ drop 1 (item_period it) @ ''-01'',
                   e_series_name = series_name (seriesID s), e_value = item_value it\<rparr>)
            (filter (\<lambda>it. \<exists>rest. item_period it = CHR ''M'' # rest) (series_data s)))
        (p_series resp))"
    by (simp add: all_data_def process_series_eq process_items_eq a)
  have e: "\<forall>name it. (process_items name [it] \<noteq> []) = (\<exists>rest. item_period it = CHR ''M'' # rest)"
    by (simp add: a)
  have f: "\<forall>name it rest. item_period it = CHR ''M'' # rest \<longrightarrow>
      process_items name [it] =
        [\<lparr>e_date = item_year it @ ''-'' @ rest @ ''-01'', e_series_name = name,
          e_value = item_value it\<rparr>]"
    by simp
  have g: "map_of series_names sid = None \<longrightarrow> series_name sid = sid"
    by (simp add: series_name_def)
  from d e f b g c show ?thesis by blast
qed

theorem reshape_keeps_M_periods_witness:
  "all_data fixture_payload =
     [\<lparr>e_date = ''2024-03-01'', e_series_name = ''Unemployment_Rate'', e_value = ''3.9''\<rparr>,
      \<lparr>e_date = ''2024-02-01'', e_series_name = ''Unemployment_Rate'', e_value = ''3.8''\<rparr>,
      \<lparr>e_date = ''2024-01-01'', e_series_name = ''Unemployment_Rate'', e_value = ''3.7''\<rparr>,
      \<lparr>e_date = ''2024-02-01'', e_series_name = ''Total_Nonfarm_Employees'',
        e_value = ''157200''\<rparr>,
      \<lparr>e_date = ''2024-01-01'', e_series_name = ''Total_Nonfarm_Employees'',
        e_value = ''157000''\<rparr>] \<and>
   map_of series_names ''CUUR0000SA0'' = None \<and>
   series_name ''CUUR0000SA0'' = ''CUUR0000SA0'' \<and>
   (''LNS14000000'', ''Unemployment_Rate'') \<in> set series_names \<and>
   series_name ''LNS14000000'' = ''Unemployment_Rate''"
proof -
  have n: "map_of series_names ''CUUR0000SA0'' = None"
    by (simp add: series_names_def)
  have m: "(''LNS14000000'', ''Unemployment_Rate'') \<in> set series_names"
    by (simp add: series_names_def)
  note t = reshape_keeps_M_periods [of fixture_payload "''CUUR0000SA0''"]
  note t' = reshape_keeps_M_periods [of fixture_payload "''LNS14000000''"]
  from t have "all_data fixture_payload =
     concat (map (\<lambda>s.
        map (\<lambda>it. \<lparr>e_date = item_year it @ ''-'' @ drop 1 (item_period it) @ ''-01'',
                   e_series_name = series_name (seriesID s), e_value = item_value it\<rparr>)
            (filter (\<lambda>it. \<exists>rest. item_period it = CHR ''M'' # rest) (series_data s)))
        (p_series fixture_payload))"
    by blast
  then have a: "all_data fixture_payload =
     [\<lparr>e_date = ''2024-03-01'', e_series_name = ''Unemployment_Rate'', e_value = ''3.9''\<rparr>,
      \<lparr>e_date = ''2024-02-01'', e_series_name = ''Unemployment_Rate'', e_value = ''3.8''\<rparr>,
      \<lparr>e_date = ''2024-01-01'', e_series_name = ''Unemployment_Rate'', e_value = ''3.7''\<rparr>,
      \<lparr>e_date = ''2024-02-01'', e_series_name = ''Total_Nonfarm_Employees'',
        e_value = ''157200''\<rparr>,
      \<lparr>e_date = ''2024-01-01'', e_series_name = ''Total_Nonfarm_Employees'',
        e_value = ''157000''\<rparr>]"
    by (simp add: fixture_payload_def obs_def series_name_def series_names_def)
  from t n have b: "series_name ''CUUR0000SA0'' = ''CUUR0000SA0''"
    by blast
  from t' m have c: "series_name ''LNS14000000'' = ''Unemployment_Rate''"
    by blast
  from a n b m c show ?thesis by blast
qed

text \<open>
  The claim as first stated, that an observation is kept exactly when its period is one
  of \<open>M01\<close> to \<open>M12\<close>, fails: an observation with period \<open>M13\<close> is kept, with the date
  string \<open>2024-13-01\<close>.
\<close>

theorem monthly_only_counterexample:
  "all_data \<lparr>p_status = Some ''REQUEST_SUCCEEDED'', p_message = None,
             p_series = [\<lparr>seriesID = ''LNS14000000'',
                          series_data = [\<lparr>item_year = ''2024'', item_period = ''M13'',
                                           item_value = ''3.6''\<rparr>]\<rparr>]\<rparr>
     = [\<lparr>e_date = ''2024-13-01'', e_series_name = ''Unemployment_Rate'', e_value = ''3.6''\<rparr>] \<and>
   ''M13'' \<notin> set monthly_periods"
  by (simp add: all_data_def series_name_def series_names_def monthly_periods_def)

end
